theory Spec2Isabelle
  imports Main "HOL-Library.Sublist"
begin

section \<open>Strings\<close>

text \<open>
  A Python \<open>str\<close> is modelled as a \<open>string\<close> holding the UTF-8 encoding of the text:
  concatenation, \<open>in\<close>, \<open>split\<close> and \<open>join\<close> on the encoded form agree with the same
  operations on code points, because UTF-8 is self-synchronising.
\<close>

definition newline :: string where
  "newline = [CHR 0x0A]"

definition backslash_n :: string where
  \<comment> \<open>The Python literal \<open>'\\n'\<close>: two characters, a backslash and the letter n.\<close>
  "backslash_n = [CHR 0x5C, CHR ''n'']"

fun contains :: "string \<Rightarrow> string \<Rightarrow> bool" where
  \<comment> \<open>\<open>contains s x\<close> is Python's \<open>x in s\<close> on strings.\<close>
  "contains [] x = (x = [])"
| "contains (c # cs) x = (prefix x (c # cs) \<or> contains cs x)"

fun join :: "string \<Rightarrow> string list \<Rightarrow> string" where
  \<comment> \<open>\<open>join sep xs\<close> is Python's \<open>sep.join(xs)\<close>.\<close>
  "join sep [] = []"
| "join sep [x] = x"
| "join sep (x # y # ys) = x @ sep @ join sep (y # ys)"

function split_from :: "string \<Rightarrow> string \<Rightarrow> string \<Rightarrow> string list" where
  \<comment> \<open>The scan of \<open>str.split(sep)\<close>: \<open>cur\<close> is the piece read so far.\<close>
  "split_from sep cur [] = [cur]"
| "split_from sep cur (c # cs) =
     (if sep \<noteq> [] \<and> prefix sep (c # cs)
      then cur # split_from sep [] (drop (length sep) (c # cs))
      else split_from sep (cur @ [c]) cs)"
  by pat_completeness auto
termination
  by (relation "measure (\<lambda>(sep, cur, s). length s)") auto

definition split :: "string \<Rightarrow> string \<Rightarrow> string list" where
  \<comment> \<open>\<open>split s sep\<close> is Python's \<open>s.split(sep)\<close> for a non-empty separator.\<close>
  "split s sep = split_from sep [] s"

definition text_lines :: "string list \<Rightarrow> string" where
  \<comment> \<open>A multi-line literal, written as the list of its lines.\<close>
  "text_lines ls = join newline ls"

section \<open>Data model\<close>

datatype py_error = KeyError | OSError | UnicodeDecodeError | RuntimeError | OtherException

datatype 'a outcome = Returned 'a | Raised py_error | Exited int

record validation_issue =
  severity :: string
  category :: string
  message :: string
  file_path :: "string option"
  line_number :: "int option"

text \<open>
  A generator entry of the configuration is a dictionary; a key that is absent is \<open>None\<close>.
\<close>

record generator_config =
  template :: "string option"
  target_struct :: "string option"
  trait_impl :: "string option"
  safety_requirements :: "string list option"
  traceability_ids :: "string list option"
  description :: "string option"
  safety_critical :: "bool option"

definition dict_get :: "'a option \<Rightarrow> 'a \<Rightarrow> 'a" where
  \<comment> \<open>\<open>d.get(key, default)\<close>, applied to the entry of \<open>key\<close>.\<close>
  "dict_get v dflt = (case v of None \<Rightarrow> dflt | Some x \<Rightarrow> x)"

section \<open>Templates\<close>

definition build_traceability_comment :: "generator_config \<Rightarrow> string list \<Rightarrow> string" where
  "build_traceability_comment config specs =
     (let ids = dict_get (traceability_ids config) [] in
      if ids = [] then ''//! Generated from project specifications''
      else ''//! '' @ [CHR 0xF0, CHR 0x9F, CHR 0x94, CHR 0x97] @ '' '' @ join '', '' ids
           @ '': Generated Implementation'' @ backslash_n @ ''//! AI Traceability: ''
           @ (if specs \<noteq> [] then hd specs else ''Generated from specifications''))"

definition HalImplementationTemplate_generate :: "generator_config \<Rightarrow> string list \<Rightarrow> string" where
  "HalImplementationTemplate_generate config specs =
     (let struct_name = dict_get (target_struct config) ''GenericHalImpl'';
          trait_impl = dict_get (trait_impl config) ''GenericTrait'';
          safety_reqs = dict_get (safety_requirements config) [];
          traceability_comment = build_traceability_comment config specs
      in text_lines
        [''//! Generated HAL Implementation'',
         ''//! '',
         traceability_comment,
         '''',
         ''use crate::{HalResult, HalError};'',
         '''',
         ''/// Hardware-specific implementation'',
         ''pub struct '' @ struct_name @ '' {'',
         ''    initialized: bool,'',
         ''    // TODO: Add hardware-specific fields'',
         ''}'',
         '''',
         ''impl '' @ struct_name @ '' {'',
         ''    pub fn new() -> Self {'',
         ''        Self {'',
         ''            initialized: false,'',
         ''        }'',
         ''    }'',
         ''    '',
         ''    pub fn init(&mut self) -> HalResult<()> {'',
         ''        // TODO: Initialize hardware'',
         ''        self.initialized = true;'',
         ''        Ok(())'',
         ''    }'',
         ''}'',
         '''',
         ''impl '' @ trait_impl @ '' for '' @ struct_name @ '' {'',
         ''    // TODO: Implement trait methods based on specifications'',
         ''}'',
         '''',
         ''#[cfg(test)]'',
         ''mod tests {'',
         ''    use super::*;'',
         ''    '',
         ''    #[test]'',
         ''    fn test_initialization() {'',
         ''        let mut impl_instance = '' @ struct_name @ ''::new();'',
         ''        assert!(impl_instance.init().is_ok());'',
         ''    }'',
         ''}''])"

definition ControlSystemTemplate_generate :: "generator_config \<Rightarrow> string list \<Rightarrow> string" where
  "ControlSystemTemplate_generate config specs =
     (let struct_name = dict_get (target_struct config) ''GenericController''
      in text_lines
        [''//! Generated Control System'',
         ''//! '',
         ''//! Generated from specifications'',
         '''',
         ''use crate::{HalResult, HalError};'',
         '''',
         ''pub struct '' @ struct_name @ '' {'',
         ''    enabled: bool,'',
         ''    // TODO: Add control-specific fields'',
         ''}'',
         '''',
         ''impl '' @ struct_name @ '' {'',
         ''    pub fn new() -> Self {'',
         ''        Self {'',
         ''            enabled: false,'',
         ''        }'',
         ''    }'',
         ''    '',
         ''    /// Main control loop update'',
         ''    pub fn update(&mut self, dt: f32) -> HalResult<()> {'',
         ''        // TODO: Implement control logic from specifications'',
         ''        Ok(())'',
         ''    }'',
         ''}''])"

datatype code_template =
    HalImplementationTemplate
  | ControlSystemTemplate
  | CustomTemplate "generator_config \<Rightarrow> string list \<Rightarrow> py_error + string"

fun generate :: "code_template \<Rightarrow> generator_config \<Rightarrow> string list \<Rightarrow> py_error + string" where
  \<comment> \<open>The dispatch of \<open>template.generate(config, specs)\<close>; a registered custom template is
     any function of the two arguments, which may raise.\<close>
  "generate HalImplementationTemplate config specs = Inr (HalImplementationTemplate_generate config specs)"
| "generate ControlSystemTemplate config specs = Inr (ControlSystemTemplate_generate config specs)"
| "generate (CustomTemplate f) config specs = f config specs"

section \<open>Configuration, file system and framework state\<close>

record traceability_schema_dict =
  id_format :: "string option"

record validation_rules_dict =
  cross_reference_targets :: "string list option"
  required_derivation_fields :: "string list option"

text \<open>
  The loaded configuration. \<open>code_generators\<close> lists the items of the dictionary in
  insertion order.
\<close>

record project_config =
  project_name :: "string option"
  traceability_schema :: "traceability_schema_dict option"
  code_generators :: "(string \<times> generator_config) list option"
  validation_rules :: "validation_rules_dict option"

text \<open>
  The file system as the framework observes it: \<open>glob_md dir\<close> is what
  \<open>Path(dir).glob("*.md")\<close> yields, in iteration order, each file with the result of its
  \<open>read_text\<close>; \<open>path_exists dir target\<close> is \<open>(Path(dir) / target).exists()\<close>;
  \<open>load_json path\<close> is the result of opening \<open>path\<close> and parsing it, \<open>None\<close> when either
  step raises.
\<close>

record doc_file =
  file_name :: string
  read_text :: "py_error + string"

record filesystem =
  glob_md :: "string \<Rightarrow> doc_file list"
  path_exists :: "string \<Rightarrow> string \<Rightarrow> bool"
  load_json :: "string \<Rightarrow> project_config option"

record framework =
  config_path :: string
  config :: project_config
  docs_dir :: string
  validation_issues :: "validation_issue list"
  templates :: "string \<rightharpoonup> code_template"

definition load_config :: "filesystem \<Rightarrow> string \<Rightarrow> py_error + project_config" where
  "load_config fs path = (case load_json fs path of None \<Rightarrow> Inl RuntimeError | Some c \<Rightarrow> Inr c)"

definition framework_init :: "filesystem \<Rightarrow> string \<Rightarrow> py_error + framework" where
  \<comment> \<open>\<open>SystematicEngineeringFramework.__init__\<close>\<close>
  "framework_init fs path =
     (case load_config fs path of
        Inl e \<Rightarrow> Inl e
      | Inr c \<Rightarrow>
          Inr \<lparr>config_path = path, config = c, docs_dir = ''docs'', validation_issues = [],
               templates = [''hal_implementation'' \<mapsto> HalImplementationTemplate,
                            ''control_system'' \<mapsto> ControlSystemTemplate]\<rparr>)"

definition get_available_generators :: "framework \<Rightarrow> string list" where
  "get_available_generators fw = map fst (dict_get (code_generators (config fw)) [])"

definition add_custom_template :: "framework \<Rightarrow> string \<Rightarrow> code_template \<Rightarrow> framework" where
  "add_custom_template fw name t = fw\<lparr>templates := (templates fw)(name \<mapsto> t)\<rparr>"

section \<open>Validation\<close>

text \<open>
  \<open>re.findall(r'T\d+-[A-Z]+-\d+', content)\<close>. A match starts with the letter T and
  continues with a run of digits, a dash, a run of upper-case letters, a dash and a run of
  digits. Each run is followed by a character outside its class, so the greedy match takes
  each run whole and no shorter run can match. The digit class is that of the ASCII
  digits; Python's \<open>\d\<close> accepts the decimal digits of other scripts as well, which the
  properties below do not depend on.
\<close>

definition is_digit :: "char \<Rightarrow> bool" where
  "is_digit c = (c \<in> set ''0123456789'')"

definition is_upper :: "char \<Rightarrow> bool" where
  "is_upper c = (c \<in> set ''ABCDEFGHIJKLMNOPQRSTUVWXYZ'')"

fun match_id :: "string \<Rightarrow> string option" where
  \<comment> \<open>The match of the pattern at the start of the string, if there is one.\<close>
  "match_id [] = None"
| "match_id (c # r0) =
     (let d1 = takeWhile is_digit r0; r1 = dropWhile is_digit r0 in
      if c \<noteq> CHR ''T'' \<or> d1 = [] then None
      else (case r1 of
        [] \<Rightarrow> None
      | m1 # r2 \<Rightarrow>
          let u = takeWhile is_upper r2; r3 = dropWhile is_upper r2 in
          if m1 \<noteq> CHR ''-'' \<or> u = [] then None
          else (case r3 of
            [] \<Rightarrow> None
          | m2 # r4 \<Rightarrow>
              let d2 = takeWhile is_digit r4 in
              if m2 \<noteq> CHR ''-'' \<or> d2 = [] then None
              else Some (c # d1 @ [m1] @ u @ [m2] @ d2))))"

fun findall_from :: "nat \<Rightarrow> string \<Rightarrow> string list" where
  \<comment> \<open>The left-to-right scan for non-overlapping matches; \<open>skip\<close> counts the characters
     of the last match still to pass.\<close>
  "findall_from skip [] = []"
| "findall_from (Suc k) (c # cs) = findall_from k cs"
| "findall_from 0 (c # cs) =
     (case match_id (c # cs) of
        Some m \<Rightarrow> m # findall_from (length m - 1) cs
      | None \<Rightarrow> findall_from 0 cs)"

definition findall_ids :: "string \<Rightarrow> string list" where
  "findall_ids content = findall_from 0 content"

fun scan_ids :: "string list \<Rightarrow> string set \<times> string list \<Rightarrow> string set \<times> string list" where
  \<comment> \<open>The loop over \<open>ids_in_file\<close>, on the pair \<open>(found_ids, duplicate_ids)\<close>.\<close>
  "scan_ids [] (found_ids, duplicate_ids) = (found_ids, duplicate_ids)"
| "scan_ids (id_str # rest) (found_ids, duplicate_ids) =
     (if id_str \<in> found_ids then scan_ids rest (found_ids, duplicate_ids @ [id_str])
      else scan_ids rest (insert id_str found_ids, duplicate_ids))"

fun scan_docs :: "doc_file list \<Rightarrow> string set \<times> string list \<Rightarrow> py_error + string set \<times> string list" where
  \<comment> \<open>The loop over the documentation files; an unreadable file raises.\<close>
  "scan_docs [] st = Inr st"
| "scan_docs (doc # docs) st =
     (case read_text doc of
        Inl e \<Rightarrow> Inl e
      | Inr content \<Rightarrow> scan_docs docs (scan_ids (findall_ids content) st))"

definition duplicate_issue :: "string \<Rightarrow> validation_issue" where
  "duplicate_issue dup_id =
     \<lparr>severity = ''error'', category = ''duplicate_id'',
      message = ''Duplicate traceability ID: '' @ dup_id,
      file_path = None, line_number = None\<rparr>"

fun report_duplicates :: "string list \<Rightarrow> validation_issue list \<Rightarrow> validation_issue list" where
  "report_duplicates [] issues = issues"
| "report_duplicates (dup_id # rest) issues = report_duplicates rest (issues @ [duplicate_issue dup_id])"

definition validate_traceability_ids :: "framework \<Rightarrow> filesystem \<Rightarrow> py_error + framework" where
  "validate_traceability_ids fw fs =
     (case scan_docs (glob_md fs (docs_dir fw)) ({}, []) of
        Inl e \<Rightarrow> Inl e
      | Inr (found_ids, duplicate_ids) \<Rightarrow>
          Inr (fw\<lparr>validation_issues := report_duplicates duplicate_ids (validation_issues fw)\<rparr>))"

definition missing_issue :: "string \<Rightarrow> validation_issue" where
  "missing_issue target =
     \<lparr>severity = ''warning'', category = ''missing_file'',
      message = ''Referenced file missing: '' @ target,
      file_path = None, line_number = None\<rparr>"

fun check_targets :: "filesystem \<Rightarrow> string \<Rightarrow> string list \<Rightarrow> validation_issue list \<Rightarrow> validation_issue list" where
  "check_targets fs dir [] issues = issues"
| "check_targets fs dir (target # rest) issues =
     (if \<not> path_exists fs dir target then check_targets fs dir rest (issues @ [missing_issue target])
      else check_targets fs dir rest issues)"

definition configured_targets :: "framework \<Rightarrow> string list" where
  \<comment> \<open>\<open>self.config.get("validation_rules", {}).get("cross_reference_targets", [])\<close>\<close>
  "configured_targets fw =
     (case validation_rules (config fw) of
        None \<Rightarrow> []
      | Some rules \<Rightarrow> dict_get (cross_reference_targets rules) [])"

definition validate_cross_references :: "framework \<Rightarrow> filesystem \<Rightarrow> framework" where
  "validate_cross_references fw fs =
     (let targets = configured_targets fw
      in fw\<lparr>validation_issues := check_targets fs (docs_dir fw) targets (validation_issues fw)\<rparr>)"

definition validate_derivations :: "framework \<Rightarrow> framework" where
  \<comment> \<open>The body reads the required fields and passes.\<close>
  "validate_derivations fw = fw"

definition has_error :: "validation_issue list \<Rightarrow> bool" where
  \<comment> \<open>\<open>any(issue.severity == "error" for issue in issues)\<close>\<close>
  "has_error issues = list_ex (\<lambda>issue. severity issue = ''error'') issues"

definition validate_all :: "framework \<Rightarrow> filesystem \<Rightarrow> bool \<Rightarrow> validation_issue list outcome \<times> framework" where
  \<comment> \<open>The result and the framework afterwards. The first line formats
     \<open>self.config['project_name']\<close>, which raises when the key is absent. Console output is
     not modelled.\<close>
  "validate_all fw fs blocking =
     (case project_name (config fw) of
        None \<Rightarrow> (Raised KeyError, fw)
      | Some _ \<Rightarrow>
          let fw1 = fw\<lparr>validation_issues := []\<rparr> in
          (case validate_traceability_ids fw1 fs of
             Inl e \<Rightarrow> (Raised e, fw1)
           | Inr fw2 \<Rightarrow>
               let fw3 = validate_cross_references fw2 fs;
                   fw4 = validate_derivations fw3
               in if blocking \<and> has_error (validation_issues fw4) then (Exited 1, fw4)
                  else (Returned (validation_issues fw4), fw4)))"

section \<open>Specification extraction and generation\<close>

definition slice :: "'a list \<Rightarrow> int \<Rightarrow> int \<Rightarrow> 'a list" where
  \<comment> \<open>\<open>slice xs a b\<close> is Python's \<open>xs[a:b]\<close>.\<close>
  "slice xs a b =
     (let n = int (length xs);
          a' = (if a < 0 then max 0 (n + a) else min n a);
          b' = (if b < 0 then max 0 (n + b) else min n b)
      in take (nat (b' - a')) (drop (nat a') xs))"

fun find_line :: "string \<Rightarrow> string list \<Rightarrow> nat \<Rightarrow> nat option" where
  \<comment> \<open>The loop over \<open>enumerate(lines)\<close> up to its \<open>break\<close>: the index of the first line
     that contains the identifier, counting from \<open>i\<close>.\<close>
  "find_line trace_id [] i = None"
| "find_line trace_id (line # rest) i =
     (if contains line trace_id then Some i else find_line trace_id rest (Suc i))"

definition context_window :: "string list \<Rightarrow> nat \<Rightarrow> string" where
  "context_window lines i =
     (let start = max 0 (int i - 2);
          end = min (int (length lines)) (int i + 5)
      in join backslash_n (slice lines start end))"

fun extract_ids :: "string \<Rightarrow> string list \<Rightarrow> string list \<Rightarrow> string list" where
  \<comment> \<open>The loop over the requested identifiers for one document.\<close>
  "extract_ids content [] specs = specs"
| "extract_ids content (trace_id # rest) specs =
     (if contains content trace_id then
        (let lines = split content backslash_n in
         case find_line trace_id lines 0 of
           None \<Rightarrow> extract_ids content rest specs
         | Some i \<Rightarrow> extract_ids content rest (specs @ [context_window lines i]))
      else extract_ids content rest specs)"

fun extract_docs :: "doc_file list \<Rightarrow> string list \<Rightarrow> string list \<Rightarrow> py_error + string list" where
  "extract_docs [] ids specs = Inr specs"
| "extract_docs (doc # docs) ids specs =
     (case read_text doc of
        Inl e \<Rightarrow> Inl e
      | Inr content \<Rightarrow> extract_docs docs ids (extract_ids content ids specs))"

definition extract_specifications :: "framework \<Rightarrow> filesystem \<Rightarrow> string list \<Rightarrow> py_error + string list" where
  "extract_specifications fw fs ids = extract_docs (glob_md fs (docs_dir fw)) ids []"

definition generate_module :: "framework \<Rightarrow> filesystem \<Rightarrow> string \<Rightarrow> string option outcome" where
  "generate_module fw fs module_name =
     (let generators = dict_get (code_generators (config fw)) [] in
      case map_of generators module_name of
        None \<Rightarrow> Returned None
      | Some generator_config \<Rightarrow>
          let template_name = dict_get (template generator_config) ''hal_implementation'' in
          (case templates fw template_name of
             None \<Rightarrow> Returned None
           | Some t \<Rightarrow>
               (case extract_specifications fw fs (dict_get (traceability_ids generator_config) []) of
                  Inl e \<Rightarrow> Raised e
                | Inr specs \<Rightarrow>
                    (case generate t generator_config specs of
                       Inl e \<Rightarrow> Raised e
                     | Inr generated_code \<Rightarrow> Returned (Some generated_code)))))"

section \<open>Notions used to state the properties\<close>

fun tree_ids :: "doc_file list \<Rightarrow> py_error + string list" where
  \<comment> \<open>The identifier occurrences of a documentation tree, in scan order; they are
     defined when every document of the tree can be read.\<close>
  "tree_ids [] = Inr []"
| "tree_ids (doc # docs) =
     (case read_text doc of
        Inl e \<Rightarrow> Inl e
      | Inr content \<Rightarrow>
          (case tree_ids docs of Inl e \<Rightarrow> Inl e | Inr ids \<Rightarrow> Inr (findall_ids content @ ids)))"

datatype operation =
    ValidateAll filesystem bool
  | AddCustomTemplate string code_template

fun run_operations :: "framework \<Rightarrow> operation list \<Rightarrow> framework" where
  \<comment> \<open>The framework after a sequence of the operations that change it, each validation
     run on the file system of its moment.\<close>
  "run_operations fw [] = fw"
| "run_operations fw (ValidateAll fs blocking # ops) =
     run_operations (snd (validate_all fw fs blocking)) ops"
| "run_operations fw (AddCustomTemplate name t # ops) =
     run_operations (add_custom_template fw name t) ops"

definition run_issues :: "framework \<Rightarrow> filesystem \<Rightarrow> string list \<Rightarrow> validation_issue list" where
  \<comment> \<open>The issues of one validation run over a tree with the given identifier occurrences.\<close>
  "run_issues fw fs occurrences =
     map duplicate_issue (snd (scan_ids occurrences ({}, [])))
     @ map missing_issue (filter (\<lambda>target. \<not> path_exists fs (docs_dir fw) target) (configured_targets fw))"

section \<open>Example inputs\<close>

definition hal_entry :: generator_config where
  "hal_entry = \<lparr>template = None, target_struct = Some ''FooImpl'', trait_impl = Some ''BarTrait'',
     safety_requirements = Some [''no overboost''], traceability_ids = Some [''T1-REQ-001''],
     description = Some ''sensor layer'', safety_critical = Some True\<rparr>"

definition control_entry :: generator_config where
  "control_entry = \<lparr>template = Some ''control_system'', target_struct = Some ''AttitudeController'',
     trait_impl = None, safety_requirements = None, traceability_ids = None,
     description = None, safety_critical = None\<rparr>"

definition unknown_entry :: generator_config where
  "unknown_entry = \<lparr>template = Some ''no_such_template'', target_struct = Some ''FooImpl'',
     trait_impl = None, safety_requirements = None, traceability_ids = None,
     description = None, safety_critical = None\<rparr>"

definition example_config :: project_config where
  "example_config = \<lparr>project_name = Some ''demo'', traceability_schema = None,
     code_generators = Some [(''sensor-hal'', hal_entry), (''attitude-controller'', control_entry),
                             (''broken'', unknown_entry)],
     validation_rules = Some \<lparr>cross_reference_targets = Some [''Missing.md'', ''Present.md'', ''Missing.md''],
                               required_derivation_fields = None\<rparr>\<rparr>"

definition example_fs :: "doc_file list \<Rightarrow> filesystem" where
  "example_fs docs = \<lparr>glob_md = (\<lambda>dir. if dir = ''docs'' then docs else []),
     path_exists = (\<lambda>dir target. dir = ''docs'' \<and> target = ''Present.md''),
     load_json = (\<lambda>path. if path = ''tools/project-config.json'' then Some example_config else None)\<rparr>"

definition example_framework :: framework where
  "example_framework = \<lparr>config_path = ''tools/project-config.json'', config = example_config,
     docs_dir = ''docs'', validation_issues = [],
     templates = [''hal_implementation'' \<mapsto> HalImplementationTemplate,
                  ''control_system'' \<mapsto> ControlSystemTemplate]\<rparr>"

definition requirements_doc :: doc_file where
  "requirements_doc = \<lparr>file_name = ''Requirements.md'',
     read_text = Inr ''T1-REQ-001 limits boost. T1-REQ-001 refines T2-SYS-7.''\<rparr>"

definition design_doc :: doc_file where
  "design_doc = \<lparr>file_name = ''Design.md'', read_text = Inr ''T2-SYS-7 closes the loop, see T3-HW-12''\<rparr>"

definition locked_doc :: doc_file where
  "locked_doc = \<lparr>file_name = ''Locked.md'', read_text = Inl OSError\<rparr>"

definition example_lines :: "string list" where
  "example_lines =
     [''L1'', ''L2'', ''L3'', ''L4'', ''L5'', ''L6'', ''L7'', ''L8'', ''L9'', ''L10 T5-REQ-010'',
      ''L11'', ''L12'', ''L13'', ''L14'', ''L15'', ''L16'', ''L17'', ''L18'', ''L19'', ''L20'']"

definition escaped_doc :: doc_file where
  "escaped_doc = \<lparr>file_name = ''Escaped.md'', read_text = Inr (join backslash_n example_lines)\<rparr>"

definition plain_doc :: doc_file where
  "plain_doc = \<lparr>file_name = ''Plain.md'', read_text = Inr (join newline example_lines)\<rparr>"

section \<open>Strings and generation\<close>

lemma contains_sublist: "contains s x = sublist x s"
  apply (induction s)
  apply simp
  apply (simp add: sublist_Cons_right)
  done

lemma sublist_join: "l \<in> set ls \<Longrightarrow> sublist l (join sep ls)"
proof (induction sep ls rule: join.induct)
  case (1 sep)
  then show ?case by simp
next
  case (2 sep x)
  then show ?case by simp
next
  case (3 sep x y ys)
  show ?case
  proof (cases "l = x")
    case True
    then show ?thesis by (simp add: sublist_append_rightI)
  next
    case False
    with 3 have "sublist l (join sep (y # ys))" by simp
    then obtain ps ss where "join sep (y # ys) = ps @ l @ ss"
      by (auto simp: sublist_def)
    then have "join sep (x # y # ys) = (x @ sep @ ps) @ l @ ss" by simp
    then show ?thesis unfolding sublist_def by blast
  qed
qed

lemma contains_text_lines: "l \<in> set ls \<Longrightarrow> contains (text_lines ls) l"
  by (simp add: contains_sublist text_lines_def sublist_join)

lemma init_example: "framework_init (example_fs docs) ''tools/project-config.json'' = Inr example_framework"
  by (simp add: framework_init_def load_config_def example_fs_def example_framework_def)

text \<open>
  C7. For every generator entry with \<open>target_struct = "FooImpl"\<close> and
  \<open>trait_impl = "BarTrait"\<close> and every list of specification windows, the HAL scaffold
  contains the structure declaration \<open>pub struct FooImpl {\<close> and the
  capability-implementation block header \<open>impl BarTrait for FooImpl {\<close>, each verbatim.
\<close>

theorem hal_scaffold_names_struct_and_trait:
  assumes "target_struct cfg = Some ''FooImpl''" and "trait_impl cfg = Some ''BarTrait''"
  shows "contains (HalImplementationTemplate_generate cfg specs) ''pub struct FooImpl {''
       \<and> contains (HalImplementationTemplate_generate cfg specs) ''impl BarTrait for FooImpl {''"
  using assms unfolding HalImplementationTemplate_generate_def Let_def dict_get_def
  by (simp add: contains_text_lines)

theorem hal_scaffold_witness:
  "target_struct hal_entry = Some ''FooImpl'' \<and> trait_impl hal_entry = Some ''BarTrait''
   \<and> contains (HalImplementationTemplate_generate hal_entry [''T1-REQ-001: the sensor'']) ''pub struct FooImpl {''
   \<and> contains (HalImplementationTemplate_generate hal_entry [''T1-REQ-001: the sensor'']) ''impl BarTrait for FooImpl {''"
  using hal_scaffold_names_struct_and_trait [of hal_entry "[''T1-REQ-001: the sensor'']"]
  by (simp add: hal_entry_def)

text \<open>
  C10. The control-loop scaffold depends on \<open>target_struct\<close> only: two generator entries
  with equal \<open>target_struct\<close> render to the same text, whatever their other fields and
  whatever the two lists of specification windows.
\<close>

theorem control_scaffold_depends_on_target_struct_only:
  assumes "target_struct cfg1 = target_struct cfg2"
  shows "generate ControlSystemTemplate cfg1 specs1 = generate ControlSystemTemplate cfg2 specs2"
  using assms by (simp add: ControlSystemTemplate_generate_def)

theorem control_scaffold_witness:
  "target_struct control_entry = target_struct (control_entry\<lparr>trait_impl := Some ''BarTrait'',
        safety_requirements := Some [''limit''], traceability_ids := Some [''T1-REQ-001'']\<rparr>)
   \<and> generate ControlSystemTemplate control_entry []
     = generate ControlSystemTemplate
         (control_entry\<lparr>trait_impl := Some ''BarTrait'', safety_requirements := Some [''limit''],
                          traceability_ids := Some [''T1-REQ-001'']\<rparr>) [''window one'', ''window two'']"
  using control_scaffold_depends_on_target_struct_only
          [of control_entry "control_entry\<lparr>trait_impl := Some ''BarTrait'',
                 safety_requirements := Some [''limit''], traceability_ids := Some [''T1-REQ-001'']\<rparr>"
              "[]" "[''window one'', ''window two'']"]
  by simp

text \<open>
  C6. \<open>generate_module\<close> returns the null result, and does not raise, for a name that is
  not among the configured generators, and for a configured generator whose \<open>template\<close>
  field names a template that is not registered.
\<close>

theorem generate_module_lookup_failure_returns_none:
  "(module_name \<notin> set (get_available_generators fw) \<longrightarrow>
      generate_module fw fs module_name = Returned None)
   \<and> (map_of (dict_get (code_generators (config fw)) []) module_name = Some entry
        \<and> template entry = Some template_name \<and> templates fw template_name = None \<longrightarrow>
      generate_module fw fs module_name = Returned None)"
proof (intro conjI impI)
  assume "module_name \<notin> set (get_available_generators fw)"
  then have "map_of (dict_get (code_generators (config fw)) []) module_name = None"
    by (simp add: get_available_generators_def map_of_eq_None_iff)
  then show "generate_module fw fs module_name = Returned None"
    by (simp add: generate_module_def)
next
  assume "map_of (dict_get (code_generators (config fw)) []) module_name = Some entry
        \<and> template entry = Some template_name \<and> templates fw template_name = None"
  then show "generate_module fw fs module_name = Returned None"
    by (simp add: generate_module_def dict_get_def)
qed

theorem generate_module_lookup_failure_witness:
  "''nothing'' \<notin> set (get_available_generators example_framework)
   \<and> generate_module example_framework (example_fs []) ''nothing'' = Returned None
   \<and> map_of (dict_get (code_generators (config example_framework)) []) ''broken'' = Some unknown_entry
   \<and> template unknown_entry = Some ''no_such_template''
   \<and> templates example_framework ''no_such_template'' = None
   \<and> generate_module example_framework (example_fs []) ''broken'' = Returned None"
  using generate_module_lookup_failure_returns_none
          [of "''nothing''" example_framework "example_fs []" unknown_entry "''x''"]
        generate_module_lookup_failure_returns_none
          [of "''broken''" example_framework "example_fs []" unknown_entry "''no_such_template''"]
  by (simp add: get_available_generators_def example_framework_def example_config_def
        unknown_entry_def dict_get_def)

text \<open>
  C2, as claimed: an entry whose \<open>template\<close> field is absent is a lookup failure and is
  never defaulted to a built-in variant. The entry \<open>sensor-hal\<close> has no \<open>template\<close>
  field, and \<open>generate_module\<close> renders it with the HAL scaffold.
\<close>

theorem absent_template_is_defaulted:
  "template hal_entry = None
   \<and> map_of (dict_get (code_generators (config example_framework)) []) ''sensor-hal'' = Some hal_entry
   \<and> generate_module example_framework (example_fs []) ''sensor-hal''
        = Returned (Some (HalImplementationTemplate_generate hal_entry []))
   \<and> generate_module example_framework (example_fs []) ''sensor-hal'' \<noteq> Returned None"
  by (simp add: generate_module_def example_framework_def example_config_def dict_get_def
        hal_entry_def extract_specifications_def example_fs_def)

text \<open>
  C2, amended. For a configured generator entry whose \<open>template\<close> field names a template
  that is not registered, \<open>generate_module\<close> returns the null result. An entry whose
  \<open>template\<close> field is absent is resolved under the name \<open>hal_implementation\<close>: the
  result is null exactly when nothing is registered under that name, and otherwise the
  entry is rendered by the template registered there.
\<close>

theorem unresolved_template_name:
  assumes "map_of (dict_get (code_generators (config fw)) []) module_name = Some entry"
  shows "(\<forall>template_name. template entry = Some template_name \<and> templates fw template_name = None
            \<longrightarrow> generate_module fw fs module_name = Returned None)
       \<and> (template entry = None \<longrightarrow>
            (generate_module fw fs module_name = Returned None
               \<longleftrightarrow> templates fw ''hal_implementation'' = None))
       \<and> (\<forall>t specs. template entry = None \<and> templates fw ''hal_implementation'' = Some t
             \<and> extract_specifications fw fs (dict_get (traceability_ids entry) []) = Inr specs
            \<longrightarrow> generate_module fw fs module_name
                  = (case generate t entry specs of Inl e \<Rightarrow> Raised e | Inr code \<Rightarrow> Returned (Some code)))"
  using assms
  by (auto simp: generate_module_def dict_get_def split: option.splits sum.splits)

theorem unresolved_template_name_witness:
  "map_of (dict_get (code_generators (config example_framework)) []) ''broken'' = Some unknown_entry
   \<and> template unknown_entry = Some ''no_such_template''
   \<and> templates example_framework ''no_such_template'' = None
   \<and> generate_module example_framework (example_fs []) ''broken'' = Returned None
   \<and> map_of (dict_get (code_generators (config example_framework)) []) ''sensor-hal'' = Some hal_entry
   \<and> template hal_entry = None
   \<and> templates example_framework ''hal_implementation'' = Some HalImplementationTemplate
   \<and> extract_specifications example_framework (example_fs []) (dict_get (traceability_ids hal_entry) []) = Inr []
   \<and> generate_module example_framework (example_fs []) ''sensor-hal''
        = Returned (Some (HalImplementationTemplate_generate hal_entry []))"
proof -
  have a: "map_of (dict_get (code_generators (config example_framework)) []) ''broken'' = Some unknown_entry"
    by (simp add: example_framework_def example_config_def dict_get_def)
  have b: "map_of (dict_get (code_generators (config example_framework)) []) ''sensor-hal'' = Some hal_entry"
    by (simp add: example_framework_def example_config_def dict_get_def)
  have c: "template unknown_entry = Some ''no_such_template''" "template hal_entry = None"
    by (simp_all add: unknown_entry_def hal_entry_def)
  have d: "templates example_framework ''no_such_template'' = None"
    "templates example_framework ''hal_implementation'' = Some HalImplementationTemplate"
    by (simp_all add: example_framework_def)
  have e: "extract_specifications example_framework (example_fs []) (dict_get (traceability_ids hal_entry) []) = Inr []"
    by (simp add: extract_specifications_def example_framework_def example_fs_def)
  from unresolved_template_name [OF a, of "example_fs []"] c d
  have 1: "generate_module example_framework (example_fs []) ''broken'' = Returned None" by blast
  from unresolved_template_name [OF b, of "example_fs []"] c d e
  have 2: "generate_module example_framework (example_fs []) ''sensor-hal''
        = (case generate HalImplementationTemplate hal_entry [] of Inl e \<Rightarrow> Raised e | Inr code \<Rightarrow> Returned (Some code))"
    by blast
  from a b c d e 1 2 show ?thesis by simp
qed

section \<open>Validation runs\<close>

lemma check_targets_eq:
  "check_targets fs dir targets issues
     = issues @ map missing_issue (filter (\<lambda>target. \<not> path_exists fs dir target) targets)"
  by (induction targets arbitrary: issues) auto

lemma report_duplicates_eq: "report_duplicates dups issues = issues @ map duplicate_issue dups"
  by (induction dups arbitrary: issues) auto

lemma inj_missing_issue: "missing_issue a = missing_issue b \<longleftrightarrow> a = b"
  by (auto simp: missing_issue_def)

lemma inj_duplicate_issue: "duplicate_issue a = duplicate_issue b \<longleftrightarrow> a = b"
  by (auto simp: duplicate_issue_def)

lemma count_list_map_inj:
  assumes "\<And>a b. f a = f b \<longleftrightarrow> a = b"
  shows "count_list (map f xs) (f x) = count_list xs x"
  using assms by (induction xs) auto

lemma count_list_filter: "count_list (filter P xs) x = (if P x then count_list xs x else 0)"
  by (induction xs) auto

lemma scan_ids_append: "scan_ids (xs @ ys) st = scan_ids ys (scan_ids xs st)"
  by (induction xs st rule: scan_ids.induct) auto

lemma scan_ids_count:
  "count_list (snd (scan_ids xs (found, dups))) x
     = count_list dups x + (count_list xs x - (if x \<in> found then 0 else 1))"
  by (induction xs arbitrary: found dups) auto

lemma scan_ids_distinct:
  "distinct xs \<Longrightarrow> set xs \<inter> found = {} \<Longrightarrow> snd (scan_ids xs (found, dups)) = dups"
  by (induction xs arbitrary: found dups) auto

lemma scan_docs_tree_ids:
  "tree_ids docs = Inr occurrences \<Longrightarrow> scan_docs docs st = Inr (scan_ids occurrences st)"
  by (induction docs arbitrary: st occurrences) (auto simp: scan_ids_append split: sum.splits)

lemma scan_docs_unreadable:
  "tree_ids docs = Inl e \<Longrightarrow> scan_docs docs st = Inl e"
  by (induction docs arbitrary: st) (auto split: sum.splits)

lemma filter_eq_replicate: "filter (\<lambda>y. y = x) xs = replicate (count_list xs x) x"
  by (induction xs) auto

lemma validate_traceability_ids_eq:
  assumes "tree_ids (glob_md fs (docs_dir fw)) = Inr occurrences"
  shows "validate_traceability_ids fw fs
     = Inr (fw\<lparr>validation_issues :=
              validation_issues fw @ map duplicate_issue (snd (scan_ids occurrences ({}, [])))\<rparr>)"
  using scan_docs_tree_ids [OF assms, of "({}, [])"]
  by (simp add: validate_traceability_ids_def report_duplicates_eq split: prod.splits)

lemma validate_traceability_ids_raises:
  assumes "tree_ids (glob_md fs (docs_dir fw)) = Inl e"
  shows "validate_traceability_ids fw fs = Inl e"
  using scan_docs_unreadable [OF assms, of "({}, [])"]
  by (simp add: validate_traceability_ids_def)

lemma validate_all_eq:
  assumes "tree_ids (glob_md fs (docs_dir fw)) = Inr occurrences"
    and "project_name (config fw) = Some name"
  shows "validate_all fw fs blocking
     = (if blocking \<and> has_error (run_issues fw fs occurrences) then Exited 1
        else Returned (run_issues fw fs occurrences),
        fw\<lparr>validation_issues := run_issues fw fs occurrences\<rparr>)"
proof -
  let ?fw1 = "fw\<lparr>validation_issues := []\<rparr>"
  have "tree_ids (glob_md fs (docs_dir ?fw1)) = Inr occurrences" using assms(1) by simp
  from validate_traceability_ids_eq [OF this]
  have "validate_traceability_ids ?fw1 fs
     = Inr (fw\<lparr>validation_issues := map duplicate_issue (snd (scan_ids occurrences ({}, [])))\<rparr>)"
    by simp
  then show ?thesis using assms(2)
    by (simp add: validate_all_def validate_cross_references_def validate_derivations_def
          check_targets_eq run_issues_def configured_targets_def Let_def)
qed

lemma validate_all_read_error:
  assumes "tree_ids (glob_md fs (docs_dir fw)) = Inl e"
    and "project_name (config fw) = Some name"
  shows "validate_all fw fs blocking = (Raised e, fw\<lparr>validation_issues := []\<rparr>)"
proof -
  let ?fw1 = "fw\<lparr>validation_issues := []\<rparr>"
  have "tree_ids (glob_md fs (docs_dir ?fw1)) = Inl e" using assms(1) by simp
  from validate_traceability_ids_raises [OF this] show ?thesis using assms(2)
    by (simp add: validate_all_def)
qed

lemma validate_all_key_error:
  "project_name (config fw) = None \<Longrightarrow> validate_all fw fs blocking = (Raised KeyError, fw)"
  by (simp add: validate_all_def)

lemma duplicate_id_filter:
  "filter (\<lambda>issue. category issue = ''duplicate_id'') (run_issues fw fs occurrences)
     = map duplicate_issue (snd (scan_ids occurrences ({}, [])))"
  by (simp add: run_issues_def filter_map o_def duplicate_issue_def missing_issue_def)

lemma validate_all_docs_dir: "docs_dir (snd (validate_all fw fs blocking)) = docs_dir fw"
proof (cases "project_name (config fw)")
  case None
  then show ?thesis by (simp add: validate_all_key_error)
next
  case (Some name)
  show ?thesis
  proof (cases "tree_ids (glob_md fs (docs_dir fw))")
    case (Inl e)
    from validate_all_read_error [OF Inl Some] show ?thesis by simp
  next
    case (Inr occurrences)
    from validate_all_eq [OF Inr Some] show ?thesis by simp
  qed
qed

lemma run_operations_docs_dir: "docs_dir (run_operations fw ops) = docs_dir fw"
proof (induction ops arbitrary: fw)
  case Nil
  then show ?case by simp
next
  case (Cons op ops)
  then show ?case
    by (cases op) (simp_all add: validate_all_docs_dir add_custom_template_def)
qed

lemma framework_init_docs_dir: "framework_init fs path = Inr fw \<Longrightarrow> docs_dir fw = ''docs''"
  by (auto simp: framework_init_def split: sum.splits)

lemma example_glob: "glob_md (example_fs docs) (docs_dir example_framework) = docs"
  by (simp add: example_fs_def example_framework_def)

lemma example_tree_ids:
  "tree_ids [requirements_doc, design_doc]
     = Inr [''T1-REQ-001'', ''T1-REQ-001'', ''T2-SYS-7'', ''T2-SYS-7'', ''T3-HW-12'']"
  by (simp add: requirements_doc_def design_doc_def findall_ids_def is_digit_def is_upper_def)

lemma design_tree_ids: "tree_ids [design_doc] = Inr [''T2-SYS-7'', ''T3-HW-12'']"
  by (simp add: design_doc_def findall_ids_def is_digit_def is_upper_def)

lemma example_project_name: "project_name (config example_framework) = Some ''demo''"
  by (simp add: example_framework_def example_config_def)

text \<open>
  C5. The cross-reference check appends one issue per entry of the configured target list
  that does not exist under the documentation root, in list order: none when every target
  exists, and for an absent name as many issues as the name has entries in the list. Each
  has severity \<open>warning\<close> and category \<open>missing_file\<close>.
\<close>

theorem missing_file_issue_per_absent_target:
  "\<exists>produced.
      validation_issues (validate_cross_references fw fs) = validation_issues fw @ produced
    \<and> ((\<forall>target \<in> set (configured_targets fw). path_exists fs (docs_dir fw) target) \<longrightarrow> produced = [])
    \<and> (\<forall>target. \<not> path_exists fs (docs_dir fw) target \<longrightarrow>
          count_list produced (missing_issue target) = count_list (configured_targets fw) target)
    \<and> (\<forall>issue \<in> set produced. severity issue = ''warning'' \<and> category issue = ''missing_file''
          \<and> (\<exists>target \<in> set (configured_targets fw).
                \<not> path_exists fs (docs_dir fw) target \<and> issue = missing_issue target))
    \<and> length produced
        = length (filter (\<lambda>target. \<not> path_exists fs (docs_dir fw) target) (configured_targets fw))"
proof -
  let ?absent = "\<lambda>target. \<not> path_exists fs (docs_dir fw) target"
  let ?produced = "map missing_issue (filter ?absent (configured_targets fw))"
  have 1: "validation_issues (validate_cross_references fw fs) = validation_issues fw @ ?produced"
    by (simp add: validate_cross_references_def check_targets_eq)
  have 2: "(\<forall>target \<in> set (configured_targets fw). path_exists fs (docs_dir fw) target) \<longrightarrow> ?produced = []"
    by (simp add: filter_empty_conv)
  have 3: "\<forall>target. ?absent target \<longrightarrow>
          count_list ?produced (missing_issue target) = count_list (configured_targets fw) target"
    by (simp add: count_list_map_inj [of missing_issue, OF inj_missing_issue] count_list_filter)
  have 4: "\<forall>issue \<in> set ?produced. severity issue = ''warning'' \<and> category issue = ''missing_file''
          \<and> (\<exists>target \<in> set (configured_targets fw). ?absent target \<and> issue = missing_issue target)"
    by (auto simp: missing_issue_def)
  have 5: "length ?produced = length (filter ?absent (configured_targets fw))" by simp
  from 1 2 3 4 5 show ?thesis by blast
qed

theorem missing_file_issue_witness:
  "configured_targets example_framework = [''Missing.md'', ''Present.md'', ''Missing.md'']
   \<and> \<not> path_exists (example_fs []) (docs_dir example_framework) ''Missing.md''
   \<and> count_list (validation_issues (validate_cross_references example_framework (example_fs [])))
        (missing_issue ''Missing.md'') = 2
   \<and> configured_targets (example_framework\<lparr>config := example_config\<lparr>validation_rules :=
          Some \<lparr>cross_reference_targets = Some [''Present.md''], required_derivation_fields = None\<rparr>\<rparr>\<rparr>)
       = [''Present.md'']
   \<and> path_exists (example_fs []) ''docs'' ''Present.md''
   \<and> validation_issues (validate_cross_references
        (example_framework\<lparr>config := example_config\<lparr>validation_rules :=
          Some \<lparr>cross_reference_targets = Some [''Present.md''], required_derivation_fields = None\<rparr>\<rparr>\<rparr>)
        (example_fs [])) = []"
proof -
  let ?fw2 = "example_framework\<lparr>config := example_config\<lparr>validation_rules :=
          Some \<lparr>cross_reference_targets = Some [''Present.md''], required_derivation_fields = None\<rparr>\<rparr>\<rparr>"
  have t: "configured_targets example_framework = [''Missing.md'', ''Present.md'', ''Missing.md'']"
    by (simp add: configured_targets_def example_framework_def example_config_def dict_get_def)
  have a: "\<not> path_exists (example_fs []) (docs_dir example_framework) ''Missing.md''"
    by (simp add: example_fs_def example_framework_def)
  have i: "validation_issues example_framework = []" "validation_issues ?fw2 = []"
    by (simp_all add: example_framework_def)
  have p: "\<forall>target \<in> set (configured_targets ?fw2). path_exists (example_fs []) (docs_dir ?fw2) target"
    by (simp add: configured_targets_def example_framework_def example_config_def dict_get_def example_fs_def)
  have d: "docs_dir ?fw2 = ''docs''" by (simp add: example_framework_def)
  from missing_file_issue_per_absent_target [of example_framework "example_fs []"] a t i
  have 1: "count_list (validation_issues (validate_cross_references example_framework (example_fs [])))
        (missing_issue ''Missing.md'') = 2"
    by fastforce
  from missing_file_issue_per_absent_target [of ?fw2 "example_fs []"] p i
  have 2: "validation_issues (validate_cross_references ?fw2 (example_fs [])) = []"
    by fastforce
  have t2: "configured_targets ?fw2 = [''Present.md'']"
    by (simp add: configured_targets_def example_framework_def example_config_def dict_get_def)
  have e: "path_exists (example_fs []) ''docs'' ''Present.md''"
    by (simp add: example_fs_def)
  from t a 1 t2 e 2 show ?thesis by simp
qed

text \<open>
  C3. Take a documentation tree whose documents can be read, so that its identifier
  occurrences are defined. The duplicate check appends only issues of severity \<open>error\<close>
  and category \<open>duplicate_id\<close>; it appends none when no identifier occurs twice, and
  exactly one for an identifier that occurs exactly twice, wherever the two occurrences
  are. With a project name configured, \<open>validate_all\<close> returns a list whose
  \<open>duplicate_id\<close> issues are exactly these.
\<close>

theorem duplicate_id_issues:
  assumes "tree_ids (glob_md fs (docs_dir fw)) = Inr occurrences"
  shows "\<exists>produced.
      validate_traceability_ids fw fs = Inr (fw\<lparr>validation_issues := validation_issues fw @ produced\<rparr>)
    \<and> (\<forall>issue \<in> set produced. severity issue = ''error'' \<and> category issue = ''duplicate_id'')
    \<and> (distinct occurrences \<longrightarrow> produced = [])
    \<and> (\<forall>id_str. count_list occurrences id_str = 2 \<longrightarrow>
          filter (\<lambda>issue. message issue = ''Duplicate traceability ID: '' @ id_str) produced
            = [duplicate_issue id_str])
    \<and> (\<forall>name. project_name (config fw) = Some name \<longrightarrow>
          (\<exists>issues. validate_all fw fs False = (Returned issues, fw\<lparr>validation_issues := issues\<rparr>)
             \<and> filter (\<lambda>issue. category issue = ''duplicate_id'') issues = produced))"
proof -
  let ?dups = "snd (scan_ids occurrences ({}, []))"
  let ?produced = "map duplicate_issue ?dups"
  have 1: "validate_traceability_ids fw fs
             = Inr (fw\<lparr>validation_issues := validation_issues fw @ ?produced\<rparr>)"
    by (rule validate_traceability_ids_eq [OF assms])
  have 2: "\<forall>issue \<in> set ?produced. severity issue = ''error'' \<and> category issue = ''duplicate_id''"
    by (auto simp: duplicate_issue_def)
  have 3: "distinct occurrences \<longrightarrow> ?produced = []"
    using scan_ids_distinct [of occurrences "{}" "[]"] by simp
  have 4: "\<forall>id_str. count_list occurrences id_str = 2 \<longrightarrow>
          filter (\<lambda>issue. message issue = ''Duplicate traceability ID: '' @ id_str) ?produced
            = [duplicate_issue id_str]"
  proof (intro allI impI)
    fix id_str
    assume two: "count_list occurrences id_str = 2"
    have "count_list ?dups id_str = 1"
      using scan_ids_count [of occurrences "{}" "[]" id_str] two by simp
    then have "filter (\<lambda>y. y = id_str) ?dups = [id_str]"
      by (simp add: filter_eq_replicate)
    moreover have "filter (\<lambda>issue. message issue = ''Duplicate traceability ID: '' @ id_str) ?produced
        = map duplicate_issue (filter (\<lambda>y. y = id_str) ?dups)"
      by (simp add: filter_map o_def duplicate_issue_def)
    ultimately show "filter (\<lambda>issue. message issue = ''Duplicate traceability ID: '' @ id_str) ?produced
            = [duplicate_issue id_str]"
      by simp
  qed
  have 5: "\<forall>name. project_name (config fw) = Some name \<longrightarrow>
          (\<exists>issues. validate_all fw fs False = (Returned issues, fw\<lparr>validation_issues := issues\<rparr>)
             \<and> filter (\<lambda>issue. category issue = ''duplicate_id'') issues = ?produced)"
    using validate_all_eq [OF assms, of _ False] duplicate_id_filter [of fw fs occurrences]
    by auto
  from 1 2 3 4 5 show ?thesis by blast
qed

theorem duplicate_id_issues_witness:
  "tree_ids (glob_md (example_fs [requirements_doc, design_doc]) (docs_dir example_framework))
     = Inr [''T1-REQ-001'', ''T1-REQ-001'', ''T2-SYS-7'', ''T2-SYS-7'', ''T3-HW-12'']
   \<and> count_list [''T1-REQ-001'', ''T1-REQ-001'', ''T2-SYS-7'', ''T2-SYS-7'', ''T3-HW-12''] ''T2-SYS-7'' = 2
   \<and> (\<exists>issues. validate_all example_framework (example_fs [requirements_doc, design_doc]) False
          = (Returned issues, example_framework\<lparr>validation_issues := issues\<rparr>)
        \<and> filter (\<lambda>issue. message issue = ''Duplicate traceability ID: T2-SYS-7'')
             (filter (\<lambda>issue. category issue = ''duplicate_id'') issues)
            = [duplicate_issue ''T2-SYS-7''])
   \<and> tree_ids (glob_md (example_fs [design_doc]) (docs_dir example_framework))
     = Inr [''T2-SYS-7'', ''T3-HW-12'']
   \<and> distinct [''T2-SYS-7'', ''T3-HW-12'']
   \<and> (\<exists>issues. validate_all example_framework (example_fs [design_doc]) False
          = (Returned issues, example_framework\<lparr>validation_issues := issues\<rparr>)
        \<and> filter (\<lambda>issue. category issue = ''duplicate_id'') issues = [])"
proof -
  let ?occ = "[''T1-REQ-001'', ''T1-REQ-001'', ''T2-SYS-7'', ''T2-SYS-7'', ''T3-HW-12'']"
  let ?fs1 = "example_fs [requirements_doc, design_doc]"
  let ?fs2 = "example_fs [design_doc]"
  have a: "tree_ids (glob_md ?fs1 (docs_dir example_framework)) = Inr ?occ"
    by (simp only: example_glob example_tree_ids)
  have b: "count_list ?occ ''T2-SYS-7'' = 2" by simp
  have c: "tree_ids (glob_md ?fs2 (docs_dir example_framework)) = Inr [''T2-SYS-7'', ''T3-HW-12'']"
    by (simp only: example_glob design_tree_ids)
  have d: "distinct [''T2-SYS-7'', ''T3-HW-12'']" by simp
  from duplicate_id_issues [OF a] obtain produced where
    p1: "\<forall>id_str. count_list ?occ id_str = 2 \<longrightarrow>
          filter (\<lambda>issue. message issue = ''Duplicate traceability ID: '' @ id_str) produced
            = [duplicate_issue id_str]"
    and p2: "\<forall>name. project_name (config example_framework) = Some name \<longrightarrow>
          (\<exists>issues. validate_all example_framework ?fs1 False
                = (Returned issues, example_framework\<lparr>validation_issues := issues\<rparr>)
             \<and> filter (\<lambda>issue. category issue = ''duplicate_id'') issues = produced)"
    by blast
  from p1 b have q1: "filter (\<lambda>issue. message issue = ''Duplicate traceability ID: '' @ ''T2-SYS-7'') produced
            = [duplicate_issue ''T2-SYS-7'']"
    by blast
  from p2 example_project_name obtain issues where
    i1: "validate_all example_framework ?fs1 False
                = (Returned issues, example_framework\<lparr>validation_issues := issues\<rparr>)"
    and i2: "filter (\<lambda>issue. category issue = ''duplicate_id'') issues = produced"
    by blast
  from q1 i2 have "filter (\<lambda>issue. message issue = ''Duplicate traceability ID: T2-SYS-7'')
             (filter (\<lambda>issue. category issue = ''duplicate_id'') issues)
            = [duplicate_issue ''T2-SYS-7'']"
    by simp
  with i1 have 1: "\<exists>issues. validate_all example_framework ?fs1 False
          = (Returned issues, example_framework\<lparr>validation_issues := issues\<rparr>)
        \<and> filter (\<lambda>issue. message issue = ''Duplicate traceability ID: T2-SYS-7'')
             (filter (\<lambda>issue. category issue = ''duplicate_id'') issues)
            = [duplicate_issue ''T2-SYS-7'']"
    by blast
  from duplicate_id_issues [OF c] obtain produced' where
    r1: "distinct [''T2-SYS-7'', ''T3-HW-12''] \<longrightarrow> produced' = []"
    and r2: "\<forall>name. project_name (config example_framework) = Some name \<longrightarrow>
          (\<exists>issues. validate_all example_framework ?fs2 False
                = (Returned issues, example_framework\<lparr>validation_issues := issues\<rparr>)
             \<and> filter (\<lambda>issue. category issue = ''duplicate_id'') issues = produced')"
    by blast
  from r1 d have e: "produced' = []" by blast
  from r2 example_project_name e
  have 2: "\<exists>issues. validate_all example_framework ?fs2 False
          = (Returned issues, example_framework\<lparr>validation_issues := issues\<rparr>)
        \<and> filter (\<lambda>issue. category issue = ''duplicate_id'') issues = []"
    by blast
  from a b c d 1 2 show ?thesis by blast
qed

text \<open>
  C4, as claimed: with \<open>blocking\<close> false \<open>validate_all\<close> always returns the issue
  list. It raises instead when the configuration has no \<open>project_name\<close>, and when a
  document cannot be read.
\<close>

theorem validate_all_can_raise:
  "fst (validate_all (example_framework\<lparr>config := example_config\<lparr>project_name := None\<rparr>\<rparr>)
          (example_fs [design_doc]) False) = Raised KeyError
   \<and> fst (validate_all example_framework (example_fs [design_doc, locked_doc]) False) = Raised OSError"
  by (simp add: validate_all_def example_framework_def example_config_def example_fs_def
        validate_traceability_ids_def design_doc_def locked_doc_def)

text \<open>
  C4, amended. For a configuration that defines \<open>project_name\<close>: \<open>validate_all\<close>
  exits the process with a non-zero status exactly when \<open>blocking\<close> is true and an issue
  collected in the run has severity \<open>error\<close>; with \<open>blocking\<close> false it never exits, and
  it returns the collected issue list whenever every document of the tree can be read.
\<close>

theorem validate_all_exit_behaviour:
  assumes "project_name (config fw) = Some name"
  shows "((\<exists>status. status \<noteq> 0 \<and> fst (validate_all fw fs blocking) = Exited status)
            \<longleftrightarrow> blocking \<and> has_error (validation_issues (snd (validate_all fw fs blocking))))
       \<and> (\<forall>status. fst (validate_all fw fs False) \<noteq> Exited status)
       \<and> (\<forall>occurrences. tree_ids (glob_md fs (docs_dir fw)) = Inr occurrences \<longrightarrow>
            fst (validate_all fw fs False)
              = Returned (validation_issues (snd (validate_all fw fs False))))"
proof (cases "tree_ids (glob_md fs (docs_dir fw))")
  case (Inl e)
  from validate_all_read_error [OF Inl assms] show ?thesis
    by (simp add: Inl has_error_def)
next
  case (Inr occurrences)
  from validate_all_eq [OF Inr assms] show ?thesis
    by (simp add: Inr)
qed

theorem validate_all_exit_witness:
  "project_name (config example_framework) = Some ''demo''
   \<and> has_error (validation_issues (snd (validate_all example_framework
         (example_fs [requirements_doc, design_doc]) True)))
   \<and> fst (validate_all example_framework (example_fs [requirements_doc, design_doc]) True) = Exited 1
   \<and> tree_ids (glob_md (example_fs [requirements_doc, design_doc]) (docs_dir example_framework))
     = Inr [''T1-REQ-001'', ''T1-REQ-001'', ''T2-SYS-7'', ''T2-SYS-7'', ''T3-HW-12'']
   \<and> fst (validate_all example_framework (example_fs [requirements_doc, design_doc]) False)
       = Returned (validation_issues (snd (validate_all example_framework
            (example_fs [requirements_doc, design_doc]) False)))"
proof -
  let ?fs = "example_fs [requirements_doc, design_doc]"
  let ?occ = "[''T1-REQ-001'', ''T1-REQ-001'', ''T2-SYS-7'', ''T2-SYS-7'', ''T3-HW-12'']"
  have a: "tree_ids (glob_md ?fs (docs_dir example_framework)) = Inr ?occ"
    by (simp only: example_glob example_tree_ids)
  have v: "validate_all example_framework ?fs True
     = (Exited 1, example_framework\<lparr>validation_issues := run_issues example_framework ?fs ?occ\<rparr>)"
    using validate_all_eq [OF a example_project_name, of True]
    by (simp add: run_issues_def has_error_def duplicate_issue_def)
  have e: "has_error (validation_issues (snd (validate_all example_framework ?fs True)))"
    by (simp add: v run_issues_def has_error_def duplicate_issue_def)
  from validate_all_exit_behaviour [OF example_project_name, of ?fs True] e
  have x: "\<exists>status. status \<noteq> 0 \<and> fst (validate_all example_framework ?fs True) = Exited status"
    by blast
  from validate_all_exit_behaviour [OF example_project_name, of ?fs False] a
  have r: "fst (validate_all example_framework ?fs False)
       = Returned (validation_issues (snd (validate_all example_framework ?fs False)))"
    by blast
  from x v have "fst (validate_all example_framework ?fs True) = Exited 1" by simp
  with example_project_name e a r show ?thesis by blast
qed



text \<open>
  C9. A framework constructed from any configuration path, on any file system, has the
  documentation root \<open>docs\<close>, and keeps it through every sequence of validation runs and
  template registrations; the identifier scan and the extraction of such a framework give
  the same result on two file systems that hold the same documents in \<open>docs\<close>.
\<close>

theorem documentation_root_is_docs:
  assumes "framework_init fs0 path = Inr fw"
  shows "docs_dir (run_operations fw ops) = ''docs''
       \<and> (\<forall>fs1 fs2 ids. glob_md fs1 ''docs'' = glob_md fs2 ''docs'' \<longrightarrow>
             validate_traceability_ids (run_operations fw ops) fs1
               = validate_traceability_ids (run_operations fw ops) fs2
           \<and> extract_specifications (run_operations fw ops) fs1 ids
               = extract_specifications (run_operations fw ops) fs2 ids)"
proof -
  have d: "docs_dir (run_operations fw ops) = ''docs''"
    using framework_init_docs_dir [OF assms] by (simp add: run_operations_docs_dir)
  then show ?thesis
    by (simp add: validate_traceability_ids_def extract_specifications_def)
qed

theorem documentation_root_witness:
  "framework_init (example_fs []) ''tools/project-config.json'' = Inr example_framework
   \<and> docs_dir (run_operations example_framework
         [ValidateAll (example_fs [design_doc]) False,
          AddCustomTemplate ''mine'' ControlSystemTemplate]) = ''docs''
   \<and> glob_md (example_fs [design_doc]) ''docs''
       = glob_md ((example_fs [design_doc])\<lparr>glob_md :=
           (\<lambda>dir. if dir = ''docs'' then [design_doc] else [locked_doc])\<rparr>) ''docs''
   \<and> extract_specifications example_framework (example_fs [design_doc]) [''T2-SYS-7'']
       = extract_specifications example_framework
           ((example_fs [design_doc])\<lparr>glob_md :=
              (\<lambda>dir. if dir = ''docs'' then [design_doc] else [locked_doc])\<rparr>)
           [''T2-SYS-7'']"
proof -
  let ?fs2 = "(example_fs [design_doc])\<lparr>glob_md :=
           (\<lambda>dir. if dir = ''docs'' then [design_doc] else [locked_doc])\<rparr>"
  have g: "glob_md (example_fs [design_doc]) ''docs'' = glob_md ?fs2 ''docs''"
    by (simp add: example_fs_def)
  from documentation_root_is_docs [OF init_example [of "[]"],
      of "[ValidateAll (example_fs [design_doc]) False, AddCustomTemplate ''mine'' ControlSystemTemplate]"]
  have 1: "docs_dir (run_operations example_framework
         [ValidateAll (example_fs [design_doc]) False,
          AddCustomTemplate ''mine'' ControlSystemTemplate]) = ''docs''"
    by blast
  from documentation_root_is_docs [OF init_example [of "[]"], of "[]"] g
  have 2: "extract_specifications example_framework (example_fs [design_doc]) [''T2-SYS-7'']
       = extract_specifications example_framework ?fs2 [''T2-SYS-7'']"
    by (simp del: extract_docs.simps)
  from init_example [of "[]"] 1 g 2 show ?thesis by blast
qed

section \<open>Specification windows\<close>

lemma split_newline_document: "split (join newline example_lines) newline = example_lines"
  by (simp add: split_def example_lines_def newline_def)

lemma split_plain: "split (join newline example_lines) backslash_n = [join newline example_lines]"
  by (simp add: split_def example_lines_def backslash_n_def newline_def)

lemma split_escaped: "split (join backslash_n example_lines) backslash_n = example_lines"
  by (simp add: split_def example_lines_def backslash_n_def)

lemma contains_plain: "contains (join newline example_lines) ''T5-REQ-010''"
  by (simp add: example_lines_def newline_def)

lemma contains_escaped: "contains (join backslash_n example_lines) ''T5-REQ-010''"
  by (simp add: example_lines_def backslash_n_def)

lemma plain_window:
  "extract_ids (join newline example_lines) [''T5-REQ-010''] [] = [join newline example_lines]"
proof -
  have "find_line ''T5-REQ-010'' [join newline example_lines] 0 = Some 0"
    using contains_plain by simp
  moreover have "context_window [join newline example_lines] 0 = join newline example_lines"
    by (simp add: context_window_def slice_def)
  ultimately show ?thesis
    using contains_plain split_plain by (simp add: Let_def)
qed

lemma escaped_window:
  "extract_ids (join backslash_n example_lines) [''T5-REQ-010''] []
     = [join backslash_n [''L8'', ''L9'', ''L10 T5-REQ-010'', ''L11'', ''L12'', ''L13'', ''L14'']]"
proof -
  have "find_line ''T5-REQ-010'' example_lines 0 = Some 9"
    by (simp add: example_lines_def)
  moreover have "context_window example_lines 9
      = join backslash_n [''L8'', ''L9'', ''L10 T5-REQ-010'', ''L11'', ''L12'', ''L13'', ''L14'']"
    by (simp add: context_window_def slice_def example_lines_def)
  ultimately show ?thesis
    using contains_escaped split_escaped by (simp add: Let_def)
qed

text \<open>
  C1. The claim: for a match on line 10 of a document the window is lines 8 through 15.
  The document \<open>Plain.md\<close> has twenty lines separated by newline characters, with the
  identifier on line 10 only. The extractor splits the text at the two-character sequence
  of a backslash and the letter n, finds no such sequence, takes the whole text as one
  line, and returns the whole document as the window, not its lines 8 through 15. On the
  text \<open>Escaped.md\<close>, whose twenty pieces are separated by that two-character sequence,
  the window holds the piece with the match, the two before it and the four after it.
\<close>

theorem window_on_newline_document:
  "read_text plain_doc = Inr (join newline example_lines)
   \<and> split (join newline example_lines) newline = example_lines
   \<and> example_lines ! (10 - 1) = ''L10 T5-REQ-010''
   \<and> extract_specifications example_framework (example_fs [plain_doc]) [''T5-REQ-010'']
       = Inr [join newline example_lines]
   \<and> extract_specifications example_framework (example_fs [plain_doc]) [''T5-REQ-010'']
       \<noteq> Inr [join newline
                 [''L8'', ''L9'', ''L10 T5-REQ-010'', ''L11'', ''L12'', ''L13'', ''L14'', ''L15'']]
   \<and> extract_specifications example_framework (example_fs [escaped_doc]) [''T5-REQ-010'']
       = Inr [join backslash_n [''L8'', ''L9'', ''L10 T5-REQ-010'', ''L11'', ''L12'', ''L13'', ''L14'']]"
proof -
  have 0: "read_text plain_doc = Inr (join newline example_lines)"
    by (simp add: plain_doc_def)
  have 1: "extract_specifications example_framework (example_fs [plain_doc]) [''T5-REQ-010'']
       = Inr [join newline example_lines]"
    by (simp del: extract_ids.simps
          add: extract_specifications_def example_glob plain_doc_def plain_window)
  have 2: "join newline example_lines
       \<noteq> join newline [''L8'', ''L9'', ''L10 T5-REQ-010'', ''L11'', ''L12'', ''L13'', ''L14'', ''L15'']"
    by (simp add: example_lines_def newline_def)
  have 3: "extract_specifications example_framework (example_fs [escaped_doc]) [''T5-REQ-010'']
       = Inr [join backslash_n [''L8'', ''L9'', ''L10 T5-REQ-010'', ''L11'', ''L12'', ''L13'', ''L14'']]"
    by (simp del: extract_ids.simps
          add: extract_specifications_def example_glob escaped_doc_def escaped_window)
  have 4: "example_lines ! (10 - 1) = ''L10 T5-REQ-010''"
    by (simp add: example_lines_def)
  from 0 1 2 3 4 split_newline_document show ?thesis by simp
qed

end
